theory Spec2Isabelle
  imports Complex_Main "HOL-Library.Multiset"
begin

section \<open>Overlaying tracking results on an image sequence\<close>

text \<open>
  The program is the single procedure \<open>visualize_tracking_results\<close> of
  \<^verbatim>\<open>3. Tracker/visualize.py\<close>. It reads a MOT-style log with pandas, gives every
  track id a random colour, sorts the \<^verbatim>\<open>.jpg\<close> files of a directory by the integer
  value of their stem, draws the boxes of frame \<open>i\<close> on the \<open>i\<close>-th image with OpenCV,
  streams the frames to a video writer and finally looks at the output file.

  pandas, numpy, OpenCV and the file system are outside the program. Their answers are
  the fields of a \<open>world\<close> record that the model receives; the calls the program makes
  on an image and on the video writer are recorded, in order, in the value it returns.
  Strings are byte strings, so the Python library functions below are modelled on ASCII
  text. A \<open>TrackRecord\<close> holds the integers that \<^verbatim>\<open>int(row[...])\<close> and
  \<^verbatim>\<open>int(tid)\<close> yield for a row of the log: the model covers logs whose integer
  fields pass unchanged through \<^verbatim>\<open>iterrows\<close>, which carries integers of magnitude
  below \<open>2^53\<close> exactly.
\<close>

subsection \<open>Data\<close>

record TrackRecord =
  frame :: int
  id_col :: int
  bb_left :: int
  bb_top :: int
  bb_width :: int
  bb_height :: int
  conf :: real
  x_col :: real
  y_col :: real
  z_col :: real

type_synonym color = "int \<times> int \<times> int"

datatype font_face = FONT_HERSHEY_SIMPLEX

text \<open>One call of \<^verbatim>\<open>cv2.rectangle\<close> or \<^verbatim>\<open>cv2.putText\<close> with its arguments.\<close>

datatype draw_call =
    Rectangle "int \<times> int" "int \<times> int" color int
  | PutText string "int \<times> int" font_face real color int

text \<open>A decoded image: \<^verbatim>\<open>shape\<close> is \<open>(height, width, 3)\<close>.\<close>

record image =
  height :: nat
  width :: nat
  pixels :: "nat list"

text \<open>The array held by the loop variable \<^verbatim>\<open>frame\<close>: the decoded image and the
  drawing calls made on it so far, oldest first.\<close>

record canvas =
  img :: image
  drawn :: "draw_call list"

text \<open>The \<^verbatim>\<open>cv2.VideoWriter\<close> object: its constructor arguments, the frames
  passed to \<^verbatim>\<open>write\<close> in order, and whether \<^verbatim>\<open>release\<close> was called.\<close>

record video_writer =
  filename :: string
  fourcc :: string
  fps_of :: int
  frame_size :: "nat \<times> nat"
  written :: "canvas list"
  released :: bool

text \<open>What \<^verbatim>\<open>pd.read_csv(txt_path, header=None, names=columns)\<close> does. Column names
  are supplied by the caller, so a log without any row is returned as a frame with no
  rows, \<open>DataFrame []\<close>.\<close>

datatype csv_result =
    EmptyDataError
  | FileNotFoundError
  | OtherCsvError
  | DataFrame "TrackRecord list"

record world =
  read_csv :: "string \<Rightarrow> csv_result"
  listdir :: "string \<Rightarrow> string list option"
  imread :: "string \<Rightarrow> image option"
  random_raw :: "nat \<Rightarrow> nat"
  stat_after :: "video_writer \<Rightarrow> nat option"

text \<open>\<open>listdir\<close> is \<open>None\<close> when \<^verbatim>\<open>os.listdir\<close> raises \<^verbatim>\<open>FileNotFoundError\<close>;
  \<open>imread\<close> is \<open>None\<close> when \<^verbatim>\<open>cv2.imread\<close> returns \<^verbatim>\<open>None\<close>; \<open>random_raw\<close> is the
  stream of raw numbers behind \<^verbatim>\<open>np.random\<close>; \<open>stat_after\<close> is the size of the file at
  \<^verbatim>\<open>output_path\<close> once the writer is released, \<open>None\<close> when
  \<^verbatim>\<open>os.path.exists\<close> is false.\<close>

datatype exn = ValueError | ReadCsvError

datatype error =
    EmptyInput
  | LogNotFound
  | DirNotFound
  | NoJpgFound
  | FirstImageUnreadable
  | Uncaught exn

datatype status = Success | EmptyOutput | MissingOutput

text \<open>The result of a run: the error that ended it or the status it reported, the
  video writer if one was constructed, and the paths it warned about.\<close>

record run_result =
  outcome :: "error + status"
  writer :: "video_writer option"
  warnings :: "string list"

subsection \<open>Python library functions\<close>

definition endswith :: "string \<Rightarrow> string \<Rightarrow> bool" where
  "endswith s suf = (length suf \<le> length s \<and> drop (length s - length suf) s = suf)"

fun rfind_aux :: "char \<Rightarrow> string \<Rightarrow> nat \<Rightarrow> int \<Rightarrow> int" where
  "rfind_aux c [] i found = found"
| "rfind_aux c (x # xs) i found = rfind_aux c xs (Suc i) (if x = c then int i else found)"

definition rfind :: "string \<Rightarrow> char \<Rightarrow> int" where
  "rfind p c = rfind_aux c p 0 (- 1)"

text \<open>\<^verbatim>\<open>os.path.splitext(p)[0]\<close> on POSIX: the text before the last dot, unless that dot
  is not after the last slash or only dots stand between them.\<close>

definition splitext_root :: "string \<Rightarrow> string" where
  "splitext_root p =
     (let sepIndex = rfind p (CHR ''/'');
          dotIndex = rfind p (CHR ''.'')
      in if dotIndex > sepIndex \<and>
            list_ex (\<lambda>c. c \<noteq> CHR ''.'')
              (take (nat (dotIndex - (sepIndex + 1))) (drop (nat (sepIndex + 1)) p))
         then take (nat dotIndex) p
         else p)"

text \<open>\<^verbatim>\<open>os.path.join(a, b)\<close> on POSIX.\<close>

definition path_join :: "string \<Rightarrow> string \<Rightarrow> string" where
  "path_join a b =
     (if b \<noteq> [] \<and> hd b = CHR ''/'' then b
      else if a = [] \<or> last a = CHR ''/'' then a @ b
      else a @ ''/'' @ b)"

definition is_space :: "char \<Rightarrow> bool" where
  "is_space c = (c \<in> set [CHR 0x09, CHR 0x0A, CHR 0x0B, CHR 0x0C, CHR 0x0D,
                           CHR 0x1C, CHR 0x1D, CHR 0x1E, CHR 0x1F, CHR 0x20])"

definition strip :: "string \<Rightarrow> string" where
  "strip s = rev (dropWhile is_space (rev (dropWhile is_space s)))"

definition is_digit :: "char \<Rightarrow> bool" where
  "is_digit c = (c \<in> set ''0123456789'')"

definition digit_val :: "char \<Rightarrow> int" where
  "digit_val c = int (of_char c) - 48"

text \<open>The digits of a decimal literal after its first digit; a single underscore may
  stand between two digits.\<close>

fun py_digits :: "string \<Rightarrow> int \<Rightarrow> int option" where
  "py_digits [] acc = Some acc"
| "py_digits [c] acc = (if is_digit c then Some (10 * acc + digit_val c) else None)"
| "py_digits (c # d # cs) acc =
     (if is_digit c then py_digits (d # cs) (10 * acc + digit_val c)
      else if c = CHR ''_'' \<and> is_digit d then py_digits (d # cs) acc
      else None)"

definition py_unsigned :: "string \<Rightarrow> int option" where
  "py_unsigned s =
     (case s of [] \<Rightarrow> None
      | c # cs \<Rightarrow> if is_digit c then py_digits cs (digit_val c) else None)"

text \<open>\<^verbatim>\<open>int(s)\<close> for a string: \<open>None\<close> is \<^verbatim>\<open>ValueError\<close>.\<close>

definition py_int :: "string \<Rightarrow> int option" where
  "py_int s =
     (case strip s of [] \<Rightarrow> None
      | c # cs \<Rightarrow>
          if c = CHR ''-'' then map_option uminus (py_unsigned cs)
          else if c = CHR ''+'' then py_unsigned cs
          else py_unsigned (c # cs))"

function str_nat :: "nat \<Rightarrow> string" where
  "str_nat n =
     (if n < 10 then [''0123456789'' ! n]
      else str_nat (n div 10) @ [''0123456789'' ! (n mod 10)])"
  by pat_completeness auto
termination
  by (relation "measure (\<lambda>n. n)") auto

declare str_nat.simps [simp del]

text \<open>\<^verbatim>\<open>str(n)\<close> for an integer, as the f-string formats it.\<close>

definition str_int :: "int \<Rightarrow> string" where
  "str_int n = (if n < 0 then CHR ''-'' # str_nat (nat (- n)) else str_nat (nat n))"

text \<open>\<^verbatim>\<open>Series.unique()\<close>: the distinct values in order of first appearance.\<close>

definition unique :: "'a list \<Rightarrow> 'a list" where
  "unique xs = rev (remdups (rev xs))"

text \<open>\<^verbatim>\<open>np.random.randint(low, high)\<close>: one integer of the half-open range from
  \<open>low\<close> up to but excluding \<open>high\<close>, taken from the next raw number.\<close>

definition randint :: "int \<Rightarrow> int \<Rightarrow> (nat \<Rightarrow> nat) \<Rightarrow> int \<times> (nat \<Rightarrow> nat)" where
  "randint low high g = (low + int (g 0 mod nat (high - low)), \<lambda>n. g (Suc n))"

definition rectangle :: "canvas \<Rightarrow> int \<times> int \<Rightarrow> int \<times> int \<Rightarrow> color \<Rightarrow> int \<Rightarrow> canvas" where
  "rectangle fr p1 p2 c t = fr\<lparr>drawn := drawn fr @ [Rectangle p1 p2 c t]\<rparr>"

definition putText ::
  "canvas \<Rightarrow> string \<Rightarrow> int \<times> int \<Rightarrow> font_face \<Rightarrow> real \<Rightarrow> color \<Rightarrow> int \<Rightarrow> canvas" where
  "putText fr s p f sc c t = fr\<lparr>drawn := drawn fr @ [PutText s p f sc c t]\<rparr>"

definition VideoWriter :: "string \<Rightarrow> string \<Rightarrow> int \<Rightarrow> nat \<times> nat \<Rightarrow> video_writer" where
  "VideoWriter path cc fps sz =
     \<lparr>filename = path, fourcc = cc, fps_of = fps, frame_size = sz,
      written = [], released = False\<rparr>"

definition write_frame :: "video_writer \<Rightarrow> canvas \<Rightarrow> video_writer" where
  "write_frame wr fr = wr\<lparr>written := written wr @ [fr]\<rparr>"

definition release :: "video_writer \<Rightarrow> video_writer" where
  "release wr = wr\<lparr>released := True\<rparr>"

subsection \<open>The procedure\<close>

text \<open>Step 2, the dictionary comprehension: for every id three calls of
  \<^verbatim>\<open>np.random.randint(0, 255)\<close>.\<close>

fun assign_colors ::
  "int list \<Rightarrow> (nat \<Rightarrow> nat) \<Rightarrow> (int \<rightharpoonup> color) \<Rightarrow> (int \<rightharpoonup> color)" where
  "assign_colors [] g colors = colors"
| "assign_colors (tid # tids) g colors =
     (let (c1, g1) = randint 0 255 g;
          (c2, g2) = randint 0 255 g1;
          (c3, g3) = randint 0 255 g2
      in assign_colors tids g3 (colors(tid \<mapsto> (c1, c2, c3))))"

definition build_colors :: "TrackRecord list \<Rightarrow> (nat \<Rightarrow> nat) \<Rightarrow> (int \<rightharpoonup> color)" where
  "build_colors df g = assign_colors (unique (map id_col df)) g Map.empty"

text \<open>Step 3, the sorted list of image files: \<open>None\<close> when the key function raises
  \<^verbatim>\<open>ValueError\<close> on some name. \<^verbatim>\<open>sorted\<close> is stable.\<close>

definition sort_key_of :: "string \<Rightarrow> int option" where
  "sort_key_of x = py_int (splitext_root x)"

definition sorted_img_files :: "string list \<Rightarrow> string list option" where
  "sorted_img_files names =
     (let jpgs = filter (\<lambda>f. endswith f ''.jpg'') names
      in if list_all (\<lambda>f. sort_key_of f \<noteq> None) jpgs
         then Some (sort_key (\<lambda>f. the (sort_key_of f)) jpgs)
         else None)"

text \<open>Step 4, the body of the inner loop over the detections of a frame.\<close>

definition draw_detection :: "(int \<rightharpoonup> color) \<Rightarrow> canvas \<Rightarrow> TrackRecord \<Rightarrow> canvas" where
  "draw_detection colors fr row =
     (let track_id = id_col row;
          x = bb_left row;
          y = bb_top row;
          w = bb_width row;
          h = bb_height row;
          color = (case colors track_id of Some c \<Rightarrow> c | None \<Rightarrow> (0, 255, 0));
          fr1 = rectangle fr (x, y) (x + w, y + h) color 2;
          label = ''ID: '' @ str_int track_id
      in putText fr1 label (x, y - 5) FONT_HERSHEY_SIMPLEX 0.7 color 2)"

text \<open>The work on one decoded image: select the rows of this frame index and draw
  them in the order of the log.\<close>

definition render :: "nat \<Rightarrow> image \<Rightarrow> TrackRecord list \<Rightarrow> (int \<rightharpoonup> color) \<Rightarrow> canvas" where
  "render frame_idx im df colors =
     foldl (draw_detection colors) \<lparr>img = im, drawn = []\<rparr>
       (filter (\<lambda>row. frame row = int frame_idx) df)"

text \<open>The loop over \<^verbatim>\<open>enumerate(img_files, 1)\<close>; the state is the writer and the
  warnings printed so far.\<close>

fun render_loop ::
  "world \<Rightarrow> string \<Rightarrow> TrackRecord list \<Rightarrow> (int \<rightharpoonup> color) \<Rightarrow> (nat \<times> string) list \<Rightarrow>
   video_writer \<times> string list \<Rightarrow> video_writer \<times> string list" where
  "render_loop W img_dir df colors [] st = st"
| "render_loop W img_dir df colors ((frame_idx, img_file) # rest) (wr, warns) =
     (let img_path = path_join img_dir img_file
      in case imread W img_path of
           None \<Rightarrow> render_loop W img_dir df colors rest (wr, warns @ [img_path])
         | Some fr \<Rightarrow>
             render_loop W img_dir df colors rest
               (write_frame wr (render frame_idx fr df colors), warns))"

text \<open>Step 6, the check of the output file.\<close>

definition report :: "nat option \<Rightarrow> status" where
  "report st =
     (case st of
        Some file_size \<Rightarrow> if file_size > 0 then Success else EmptyOutput
      | None \<Rightarrow> MissingOutput)"

definition abort :: "error \<Rightarrow> run_result" where
  "abort e = \<lparr>outcome = Inl e, writer = None, warnings = []\<rparr>"

definition visualize_tracking_results ::
  "world \<Rightarrow> string \<Rightarrow> string \<Rightarrow> string \<Rightarrow> int \<Rightarrow> run_result" where
  "visualize_tracking_results W txt_path img_dir output_path fps =
     (case read_csv W txt_path of
        EmptyDataError \<Rightarrow> abort EmptyInput
      | FileNotFoundError \<Rightarrow> abort LogNotFound
      | OtherCsvError \<Rightarrow> abort (Uncaught ReadCsvError)
      | DataFrame df \<Rightarrow>
          (let colors = build_colors df (random_raw W)
           in case listdir W img_dir of
                None \<Rightarrow> abort DirNotFound
              | Some names \<Rightarrow>
                  (case sorted_img_files names of
                     None \<Rightarrow> abort (Uncaught ValueError)
                   | Some img_files \<Rightarrow>
                       if img_files = [] then abort NoJpgFound
                       else
                         (let first_image_path = path_join img_dir (hd img_files)
                          in case imread W first_image_path of
                               None \<Rightarrow> abort FirstImageUnreadable
                             | Some first_frame \<Rightarrow>
                                 (let wr0 = VideoWriter output_path ''mp4v'' fps
                                              (width first_frame, height first_frame);
                                      (wr1, warns) =
                                        render_loop W img_dir df colors
                                          (enumerate 1 img_files) (wr0, []);
                                      wr2 = release wr1
                                  in \<lparr>outcome = Inr (report (stat_after W wr2)),
                                      writer = Some wr2,
                                      warnings = warns\<rparr>)))))"

subsection \<open>Example inputs\<close>

text \<open>A log of three rows, a directory whose listing is not in numeric order and holds
  a file that is no image, and an image \<^verbatim>\<open>2.jpg\<close> that does not decode.\<close>

definition demo_r1 :: TrackRecord where
  "demo_r1 = \<lparr>frame = 1, id_col = 3, bb_left = 100, bb_top = 200, bb_width = 50,
               bb_height = 80, conf = 0.9, x_col = 0, y_col = 0, z_col = 0\<rparr>"

definition demo_r2 :: TrackRecord where
  "demo_r2 = \<lparr>frame = 3, id_col = 7, bb_left = 10, bb_top = 20, bb_width = 30,
               bb_height = 40, conf = 1, x_col = 0, y_col = 0, z_col = 0\<rparr>"

definition demo_r3 :: TrackRecord where
  "demo_r3 = \<lparr>frame = 3, id_col = 3, bb_left = 104, bb_top = 203, bb_width = 50,
               bb_height = 80, conf = 0.8, x_col = 0, y_col = 0, z_col = 0\<rparr>"

definition demo_rows :: "TrackRecord list" where
  "demo_rows = [demo_r1, demo_r2, demo_r3]"

definition demo_image :: "nat \<Rightarrow> image" where
  "demo_image n = \<lparr>height = 480, width = 640, pixels = [n]\<rparr>"

definition demo_names :: "string list" where
  "demo_names = [''10.jpg'', ''1.jpg'', ''notes.txt'', ''2.jpg'']"

definition demo_world :: world where
  "demo_world =
     \<lparr>read_csv = (\<lambda>p. if p = ''gt.txt'' then DataFrame demo_rows else FileNotFoundError),
      listdir = (\<lambda>d. if d = ''img1'' then Some demo_names else None),
      imread = (\<lambda>p. if p = ''img1/1.jpg'' then Some (demo_image 1)
                    else if p = ''img1/10.jpg'' then Some (demo_image 10) else None),
      random_raw = (\<lambda>n. 7 * n + 300),
      stat_after = (\<lambda>w. if written w = [] then Some 0 else Some 1024)\<rparr>"

text \<open>Variants of the example: an output file of size zero, no output file, a log
  without rows, a first image that does not decode, and a directory without
  \<^verbatim>\<open>.jpg\<close> files.\<close>

definition zero_size_world :: world where
  "zero_size_world = demo_world\<lparr>stat_after := (\<lambda>w. Some 0)\<rparr>"

definition missing_file_world :: world where
  "missing_file_world = demo_world\<lparr>stat_after := (\<lambda>w. None)\<rparr>"

definition empty_log_world :: world where
  "empty_log_world =
     demo_world\<lparr>read_csv := (\<lambda>p. if p = ''gt.txt'' then DataFrame [] else FileNotFoundError)\<rparr>"

definition first_corrupt_world :: world where
  "first_corrupt_world =
     demo_world\<lparr>imread := (\<lambda>p. if p = ''img1/2.jpg'' then Some (demo_image 2)
                               else if p = ''img1/10.jpg'' then Some (demo_image 10) else None)\<rparr>"

definition no_jpg_world :: world where
  "no_jpg_world =
     demo_world\<lparr>listdir := (\<lambda>d. if d = ''img1'' then Some [''notes.txt'', ''1.png'', ''2.JPG'']
                                else None)\<rparr>"

section \<open>Properties\<close>

subsection \<open>The colour table\<close>

lemma set_unique: "set (unique xs) = set xs"
  by (simp add: unique_def)

lemma assign_colors_dom: "dom (assign_colors tids g colors) = dom colors \<union> set tids"
  by (induction tids arbitrary: g colors) (auto simp: randint_def Let_def)

lemma build_colors_dom: "dom (build_colors df g) = id_col ` set df"
  by (simp add: build_colors_def assign_colors_dom set_unique)

lemma build_colors_Some: "r \<in> set df \<Longrightarrow> \<exists>c. build_colors df g (id_col r) = Some c"
  using build_colors_dom [of df g] by blast

lemma randint_range: "0 \<le> fst (randint 0 255 g) \<and> fst (randint 0 255 g) \<le> 254"
proof -
  have "g 0 mod 255 < 255" by simp
  then show ?thesis unfolding randint_def by simp
qed

lemma assign_colors_range:
  "assign_colors tids g colors tid = Some (a, b, c) \<Longrightarrow>
     colors tid = Some (a, b, c) \<or>
     (0 \<le> a \<and> a \<le> 254 \<and> 0 \<le> b \<and> b \<le> 254 \<and> 0 \<le> c \<and> c \<le> 254)"
proof (induction tids arbitrary: g colors)
  case Nil
  then show ?case by simp
next
  case (Cons t tids)
  obtain c1 g1 where r1: "randint 0 255 g = (c1, g1)" by (cases "randint 0 255 g")
  obtain c2 g2 where r2: "randint 0 255 g1 = (c2, g2)" by (cases "randint 0 255 g1")
  obtain c3 g3 where r3: "randint 0 255 g2 = (c3, g3)" by (cases "randint 0 255 g2")
  from Cons.prems have "assign_colors tids g3 (colors(t \<mapsto> (c1, c2, c3))) tid = Some (a, b, c)"
    by (simp add: r1 r2 r3)
  from Cons.IH [OF this]
  have "(colors(t \<mapsto> (c1, c2, c3))) tid = Some (a, b, c) \<or>
     (0 \<le> a \<and> a \<le> 254 \<and> 0 \<le> b \<and> b \<le> 254 \<and> 0 \<le> c \<and> c \<le> 254)" .
  moreover have "0 \<le> c1 \<and> c1 \<le> 254 \<and> 0 \<le> c2 \<and> c2 \<le> 254 \<and> 0 \<le> c3 \<and> c3 \<le> 254"
    using randint_range [of g] randint_range [of g1] randint_range [of g2]
    by (simp add: r1 r2 r3)
  ultimately show ?case by (auto split: if_splits)
qed

subsection \<open>Drawing on one frame\<close>


lemma draw_detection_drawn:
  "drawn (draw_detection colors fr row) =
     drawn fr @
     [Rectangle (bb_left row, bb_top row) (bb_left row + bb_width row, bb_top row + bb_height row)
        (case colors (id_col row) of Some c \<Rightarrow> c | None \<Rightarrow> (0, 255, 0)) 2,
      PutText (''ID: '' @ str_int (id_col row)) (bb_left row, bb_top row - 5)
        FONT_HERSHEY_SIMPLEX 0.7
        (case colors (id_col row) of Some c \<Rightarrow> c | None \<Rightarrow> (0, 255, 0)) 2]"
  by (simp add: draw_detection_def rectangle_def putText_def Let_def)


lemma foldl_draw_drawn:
  "drawn (foldl (draw_detection colors) fr rows) =
     drawn fr @
     concat (map (\<lambda>row. drawn (draw_detection colors \<lparr>img = img fr, drawn = []\<rparr> row)) rows)"
  by (induction rows arbitrary: fr) (simp_all add: draw_detection_drawn)


lemma render_drawn:
  "drawn (render i im df colors) =
     concat (map (\<lambda>row. drawn (draw_detection colors \<lparr>img = im, drawn = []\<rparr> row))
       (filter (\<lambda>row. frame row = int i) df))"
  by (simp add: render_def foldl_draw_drawn)

lemma render_has_box:
  assumes "r \<in> set df" "frame r = int i" "colors (id_col r) = Some c"
  shows "Rectangle (bb_left r, bb_top r) (bb_left r + bb_width r, bb_top r + bb_height r) c 2
           \<in> set (drawn (render i im df colors))"
  using assms by (auto simp: render_drawn draw_detection_drawn intro!: bexI [of _ r])

lemma render_has_label:
  assumes "r \<in> set df" "frame r = int i" "colors (id_col r) = Some c"
  shows "PutText (''ID: '' @ str_int (id_col r)) (bb_left r, bb_top r - 5)
           FONT_HERSHEY_SIMPLEX 0.7 c 2 \<in> set (drawn (render i im df colors))"
  using assms by (auto simp: render_drawn draw_detection_drawn intro!: bexI [of _ r])

subsection \<open>The loop over the images\<close>


lemma length_map_filter:
  "length (List.map_filter g xs) = length (filter (\<lambda>x. g x \<noteq> None) xs)"
  by (simp add: List.map_filter_def)

lemma map_filter_set:
  "y \<in> set (List.map_filter g xs) \<Longrightarrow> \<exists>x \<in> set xs. g x = Some y"
  by (auto simp: List.map_filter_def)



lemma filter_enumerate:
  "length (filter (\<lambda>(i, f). P f) (enumerate m fs)) = length (filter P fs)"
  by (induction fs arbitrary: m) simp_all


lemma frames_length:
  "length (List.map_filter
      (\<lambda>(i, f). map_option (\<lambda>im. render i im df cs) (imread W (path_join d f))) (enumerate m fs)) =
   length (filter (\<lambda>f. imread W (path_join d f) \<noteq> None) fs)"
proof -
  let ?g = "\<lambda>(i, f). map_option (\<lambda>im. render i im df cs) (imread W (path_join d f))"
  have c: "(\<lambda>x. ?g x \<noteq> None) = (\<lambda>(i, f). imread W (path_join d f) \<noteq> None)"
    by (rule ext) (simp add: split_beta)
  show ?thesis
    unfolding length_map_filter c by (rule filter_enumerate)
qed

lemma render_loop_eq:
  "render_loop W d df colors es (wr, warns) =
     (wr\<lparr>written := written wr @
           List.map_filter
             (\<lambda>(i, f). map_option (\<lambda>im. render i im df colors) (imread W (path_join d f))) es\<rparr>,
      warns @ map (\<lambda>(i, f). path_join d f)
                (filter (\<lambda>(i, f). imread W (path_join d f) = None) es))"
proof (induction es arbitrary: wr warns)
  case Nil
  show ?case by (simp add: List.map_filter_simps)
next
  case (Cons e es)
  obtain i f where e: "e = (i, f)" by (cases e)
  show ?case
    by (cases "imread W (path_join d f)")
       (simp_all add: e Cons.IH List.map_filter_simps write_frame_def Let_def)
qed

subsection \<open>The sorted list of image files\<close>



subsection \<open>The paths through a run\<close>

lemma run_reaches_loop:
  assumes "read_csv W txt_path = DataFrame df"
    and "listdir W img_dir = Some names"
    and "sorted_img_files names = Some img_files"
    and "img_files \<noteq> []"
    and "imread W (path_join img_dir (hd img_files)) = Some first_frame"
  shows "visualize_tracking_results W txt_path img_dir output_path fps =
     (let wr = \<lparr>filename = output_path, fourcc = ''mp4v'', fps_of = fps,
                 frame_size = (width first_frame, height first_frame),
                 written = List.map_filter
                   (\<lambda>(i, f). map_option (\<lambda>im. render i im df (build_colors df (random_raw W)))
                      (imread W (path_join img_dir f)))
                   (enumerate 1 img_files),
                 released = True\<rparr>
      in \<lparr>outcome = Inr (report (stat_after W wr)), writer = Some wr,
          warnings = map (path_join img_dir)
            (filter (\<lambda>f. imread W (path_join img_dir f) = None) img_files)\<rparr>)"
proof -
  have w: "map (\<lambda>(i, f). path_join img_dir f)
             (filter (\<lambda>(i, f). imread W (path_join img_dir f) = None) (enumerate n fs)) =
           map (path_join img_dir) (filter (\<lambda>f. imread W (path_join img_dir f) = None) fs)" for n fs
    by (induction fs arbitrary: n) simp_all
  show ?thesis
    using assms
    by (simp add: visualize_tracking_results_def render_loop_eq VideoWriter_def release_def w Let_def)
qed

lemma run_first_unreadable:
  assumes "read_csv W txt_path = DataFrame df"
    and "listdir W img_dir = Some names"
    and "sorted_img_files names = Some img_files"
    and "img_files \<noteq> []"
    and "imread W (path_join img_dir (hd img_files)) = None"
  shows "visualize_tracking_results W txt_path img_dir output_path fps = abort FirstImageUnreadable"
  using assms by (simp add: visualize_tracking_results_def Let_def)

lemma run_writer_cases:
  assumes "writer (visualize_tracking_results W txt_path img_dir output_path fps) = Some vw"
  obtains df names img_files first_frame where
    "read_csv W txt_path = DataFrame df"
    "listdir W img_dir = Some names"
    "sorted_img_files names = Some img_files"
    "img_files \<noteq> []"
    "imread W (path_join img_dir (hd img_files)) = Some first_frame"
proof (cases "read_csv W txt_path")
  case (DataFrame df)
  show ?thesis
  proof (cases "listdir W img_dir")
    case None
    with DataFrame assms show ?thesis
      by (simp add: visualize_tracking_results_def abort_def Let_def)
  next
    case (Some names)
    show ?thesis
    proof (cases "sorted_img_files names")
      case None
      with DataFrame Some assms show ?thesis
        by (simp add: visualize_tracking_results_def abort_def Let_def)
    next
      case fs: (Some img_files)
      show ?thesis
      proof (cases "img_files = []")
        case True
        with DataFrame Some fs assms show ?thesis
          by (simp add: visualize_tracking_results_def abort_def Let_def)
      next
        case ne: False
        show ?thesis
        proof (cases "imread W (path_join img_dir (hd img_files))")
          case None
          with run_first_unreadable [OF DataFrame Some fs ne None] assms show ?thesis
            by (simp add: abort_def)
        next
          case im: (Some first_frame)
          from that [OF DataFrame Some fs ne im] show ?thesis .
        qed
      qed
    qed
  qed
qed (use assms in \<open>simp_all add: visualize_tracking_results_def abort_def\<close>)

lemma run_written_frames:
  assumes "writer (visualize_tracking_results W txt_path img_dir output_path fps) = Some vw"
    and "read_csv W txt_path = DataFrame df"
    and "listdir W img_dir = Some names"
    and "sorted_img_files names = Some img_files"
  shows "written vw = List.map_filter
           (\<lambda>(i, f). map_option (\<lambda>im. render i im df (build_colors df (random_raw W)))
              (imread W (path_join img_dir f)))
           (enumerate 1 img_files)"
proof -
  from assms(1) obtain df' names' fs' first_frame where h:
    "read_csv W txt_path = DataFrame df'" "listdir W img_dir = Some names'"
    "sorted_img_files names' = Some fs'" "fs' \<noteq> []"
    "imread W (path_join img_dir (hd fs')) = Some first_frame"
    by (rule run_writer_cases)
  from h(1-3) assms(2-4) have e: "df' = df" "names' = names" "fs' = img_files" by simp_all
  from run_reaches_loop [OF h] assms(1) show ?thesis
    by (auto simp: Let_def e)
qed


lemma empty_data_error_aborts:
  "read_csv W txt_path = EmptyDataError \<Longrightarrow>
     visualize_tracking_results W txt_path img_dir output_path fps =
       \<lparr>outcome = Inl EmptyInput, writer = None, warnings = []\<rparr>"
  by (simp add: visualize_tracking_results_def abort_def)

subsection \<open>The example run\<close>

lemma demo_sorted: "sorted_img_files demo_names = Some [''1.jpg'', ''2.jpg'', ''10.jpg'']"
  by code_simp

lemma demo_run:
  "visualize_tracking_results demo_world ''gt.txt'' ''img1'' ''out.mp4'' 30 =
     \<lparr>outcome = Inr Success,
      writer = Some
        \<lparr>filename = ''out.mp4'', fourcc = ''mp4v'', fps_of = 30, frame_size = (640, 480),
         written =
           [\<lparr>img = demo_image 1,
             drawn = [Rectangle (100, 200) (150, 280) (45, 52, 59) 2,
                      PutText ''ID: 3'' (100, 195) FONT_HERSHEY_SIMPLEX 0.7 (45, 52, 59) 2]\<rparr>,
            \<lparr>img = demo_image 10,
             drawn = [Rectangle (10, 20) (40, 60) (66, 73, 80) 2,
                      PutText ''ID: 7'' (10, 15) FONT_HERSHEY_SIMPLEX 0.7 (66, 73, 80) 2,
                      Rectangle (104, 203) (154, 283) (45, 52, 59) 2,
                      PutText ''ID: 3'' (104, 198) FONT_HERSHEY_SIMPLEX 0.7 (45, 52, 59) 2]\<rparr>],
         released = True\<rparr>,
      warnings = [''img1/2.jpg'']\<rparr>"
  by code_simp

section \<open>The claims\<close>





text \<open>
  C3. Let the log be loaded as \<open>df\<close>. There is one colour table, built from all of
  \<open>df\<close> before the loop, such that every frame the run writes is rendered with this
  table, and any two records of \<open>df\<close> with the same id, in whatever frames, have
  their rectangle and their label drawn in one and the same colour of the table.
\<close>

theorem same_id_same_color:
  assumes "read_csv W txt_path = DataFrame df"
    and "r1 \<in> set df" and "r2 \<in> set df"
    and "id_col r1 = id_col r2"
    and "frame r1 = int f1" and "frame r2 = int f2"
  shows "\<exists>colors c.
           colors = build_colors df (random_raw W) \<and>
           colors (id_col r1) = Some c \<and>
           (\<forall>vw. writer (visualize_tracking_results W txt_path img_dir output_path fps) = Some vw \<longrightarrow>
              (\<forall>fr \<in> set (written vw). \<exists>i im. fr = render i im df colors)) \<and>
           (\<forall>im1 im2.
              Rectangle (bb_left r1, bb_top r1) (bb_left r1 + bb_width r1, bb_top r1 + bb_height r1) c 2
                \<in> set (drawn (render f1 im1 df colors)) \<and>
              PutText (''ID: '' @ str_int (id_col r1)) (bb_left r1, bb_top r1 - 5)
                FONT_HERSHEY_SIMPLEX 0.7 c 2 \<in> set (drawn (render f1 im1 df colors)) \<and>
              Rectangle (bb_left r2, bb_top r2) (bb_left r2 + bb_width r2, bb_top r2 + bb_height r2) c 2
                \<in> set (drawn (render f2 im2 df colors)) \<and>
              PutText (''ID: '' @ str_int (id_col r2)) (bb_left r2, bb_top r2 - 5)
                FONT_HERSHEY_SIMPLEX 0.7 c 2 \<in> set (drawn (render f2 im2 df colors)))"
proof -
  let ?colors = "build_colors df (random_raw W)"
  obtain c where c1: "?colors (id_col r1) = Some c"
    using build_colors_Some [OF assms(2)] by blast
  then have c2: "?colors (id_col r2) = Some c"
    using assms(4) by simp
  have frames: "\<exists>i im. fr = render i im df ?colors"
    if w: "writer (visualize_tracking_results W txt_path img_dir output_path fps) = Some vw"
      and fr: "fr \<in> set (written vw)" for vw fr
  proof -
    from w obtain df' names fs first_frame where h:
      "read_csv W txt_path = DataFrame df'" "listdir W img_dir = Some names"
      "sorted_img_files names = Some fs"
      by (rule run_writer_cases)
    from h(1) assms(1) have "df' = df" by simp
    with run_written_frames [OF w h] fr
    have "fr \<in> set (List.map_filter
        (\<lambda>(i, f). map_option (\<lambda>im. render i im df ?colors) (imread W (path_join img_dir f)))
        (enumerate 1 fs))"
      by simp
    from map_filter_set [OF this] show ?thesis by auto
  qed
  have b1: "Rectangle (bb_left r1, bb_top r1) (bb_left r1 + bb_width r1, bb_top r1 + bb_height r1) c 2
          \<in> set (drawn (render f1 im1 df ?colors))" for im1
    using render_has_box [where colors = ?colors and r = r1 and df = df and i = f1 and c = c]
      assms(2,5) c1 by simp
  have l1: "PutText (''ID: '' @ str_int (id_col r1)) (bb_left r1, bb_top r1 - 5)
          FONT_HERSHEY_SIMPLEX 0.7 c 2 \<in> set (drawn (render f1 im1 df ?colors))" for im1
    using render_has_label [where colors = ?colors and r = r1 and df = df and i = f1 and c = c]
      assms(2,5) c1 by simp
  have b2: "Rectangle (bb_left r2, bb_top r2) (bb_left r2 + bb_width r2, bb_top r2 + bb_height r2) c 2
          \<in> set (drawn (render f2 im2 df ?colors))" for im2
    using render_has_box [where colors = ?colors and r = r2 and df = df and i = f2 and c = c]
      assms(3,6) c2 by simp
  have l2: "PutText (''ID: '' @ str_int (id_col r2)) (bb_left r2, bb_top r2 - 5)
          FONT_HERSHEY_SIMPLEX 0.7 c 2 \<in> set (drawn (render f2 im2 df ?colors))" for im2
    using render_has_label [where colors = ?colors and r = r2 and df = df and i = f2 and c = c]
      assms(3,6) c2 by simp
  have A: "\<forall>vw. writer (visualize_tracking_results W txt_path img_dir output_path fps) = Some vw \<longrightarrow>
      (\<forall>fr \<in> set (written vw). \<exists>i im. fr = render i im df ?colors)"
    using frames by blast
  have B: "\<forall>im1 im2.
      Rectangle (bb_left r1, bb_top r1) (bb_left r1 + bb_width r1, bb_top r1 + bb_height r1) c 2
        \<in> set (drawn (render f1 im1 df ?colors)) \<and>
      PutText (''ID: '' @ str_int (id_col r1)) (bb_left r1, bb_top r1 - 5)
        FONT_HERSHEY_SIMPLEX 0.7 c 2 \<in> set (drawn (render f1 im1 df ?colors)) \<and>
      Rectangle (bb_left r2, bb_top r2) (bb_left r2 + bb_width r2, bb_top r2 + bb_height r2) c 2
        \<in> set (drawn (render f2 im2 df ?colors)) \<and>
      PutText (''ID: '' @ str_int (id_col r2)) (bb_left r2, bb_top r2 - 5)
        FONT_HERSHEY_SIMPLEX 0.7 c 2 \<in> set (drawn (render f2 im2 df ?colors))"
    by (intro allI conjI b1 l1 b2 l2)
  show ?thesis
    by (intro exI [of _ ?colors] exI [of _ c] conjI refl c1 A B)
qed

theorem same_id_same_color_witness:
  "demo_r1 \<in> set demo_rows \<and> demo_r3 \<in> set demo_rows \<and>
   id_col demo_r1 = id_col demo_r3 \<and> frame demo_r1 = 1 \<and> frame demo_r3 = 3 \<and>
   (\<exists>vw i im.
      writer (visualize_tracking_results demo_world ''gt.txt'' ''img1'' ''out.mp4'' 30) = Some vw \<and>
      hd (written vw) \<in> set (written vw) \<and>
      hd (written vw) = render i im demo_rows (build_colors demo_rows (random_raw demo_world))) \<and>
   (\<exists>c. Rectangle (100, 200) (150, 280) c 2
          \<in> set (drawn (render 1 (demo_image 1) demo_rows
                (build_colors demo_rows (random_raw demo_world)))) \<and>
        Rectangle (104, 203) (154, 283) c 2
          \<in> set (drawn (render 3 (demo_image 10) demo_rows
                (build_colors demo_rows (random_raw demo_world)))))"
proof -
  have h1: "read_csv demo_world ''gt.txt'' = DataFrame demo_rows" by (simp add: demo_world_def)
  have h2: "demo_r1 \<in> set demo_rows" by (simp add: demo_rows_def)
  have h3: "demo_r3 \<in> set demo_rows" by (simp add: demo_rows_def)
  have h4: "id_col demo_r1 = id_col demo_r3" by (simp add: demo_r1_def demo_r3_def)
  have h5: "frame demo_r1 = int 1" by (simp add: demo_r1_def)
  have h6: "frame demo_r3 = int 3" by (simp add: demo_r3_def)
  obtain vw where w: "writer (visualize_tracking_results demo_world ''gt.txt'' ''img1'' ''out.mp4'' 30) = Some vw"
    and ne: "hd (written vw) \<in> set (written vw)"
    by (simp add: demo_run)
  from same_id_same_color [OF h1 h2 h3 h4 h5 h6, of "''img1''" "''out.mp4''" 30]
  obtain c where
    fr: "\<forall>vw. writer (visualize_tracking_results demo_world ''gt.txt'' ''img1'' ''out.mp4'' 30) = Some vw \<longrightarrow>
      (\<forall>fr \<in> set (written vw). \<exists>i im.
         fr = render i im demo_rows (build_colors demo_rows (random_raw demo_world)))"
    and bx: "\<forall>im1 im2.
       Rectangle (bb_left demo_r1, bb_top demo_r1)
         (bb_left demo_r1 + bb_width demo_r1, bb_top demo_r1 + bb_height demo_r1) c 2
         \<in> set (drawn (render 1 im1 demo_rows (build_colors demo_rows (random_raw demo_world)))) \<and>
       PutText (''ID: '' @ str_int (id_col demo_r1)) (bb_left demo_r1, bb_top demo_r1 - 5)
         FONT_HERSHEY_SIMPLEX 0.7 c 2
         \<in> set (drawn (render 1 im1 demo_rows (build_colors demo_rows (random_raw demo_world)))) \<and>
       Rectangle (bb_left demo_r3, bb_top demo_r3)
         (bb_left demo_r3 + bb_width demo_r3, bb_top demo_r3 + bb_height demo_r3) c 2
         \<in> set (drawn (render 3 im2 demo_rows (build_colors demo_rows (random_raw demo_world)))) \<and>
       PutText (''ID: '' @ str_int (id_col demo_r3)) (bb_left demo_r3, bb_top demo_r3 - 5)
         FONT_HERSHEY_SIMPLEX 0.7 c 2
         \<in> set (drawn (render 3 im2 demo_rows (build_colors demo_rows (random_raw demo_world))))"
    by blast
  from fr w ne have v: "\<exists>vw i im.
      writer (visualize_tracking_results demo_world ''gt.txt'' ''img1'' ''out.mp4'' 30) = Some vw \<and>
      hd (written vw) \<in> set (written vw) \<and>
      hd (written vw) = render i im demo_rows (build_colors demo_rows (random_raw demo_world))"
    by blast
  from bx have b:
    "Rectangle (100, 200) (150, 280) c 2
       \<in> set (drawn (render 1 (demo_image 1) demo_rows (build_colors demo_rows (random_raw demo_world)))) \<and>
     Rectangle (104, 203) (154, 283) c 2
       \<in> set (drawn (render 3 (demo_image 10) demo_rows (build_colors demo_rows (random_raw demo_world))))"
    by (simp add: demo_r1_def demo_r3_def)
  have h5': "frame demo_r1 = 1" by (simp add: demo_r1_def)
  have h6': "frame demo_r3 = 3" by (simp add: demo_r3_def)
  show ?thesis
    by (intro conjI exI [of _ c] h2 h3 h4 h5' h6' v b [THEN conjunct1] b [THEN conjunct2])
qed

text \<open>
  C4. Whenever the run reports a completion status, the writer was opened on
  \<^verbatim>\<open>output_path\<close> and released, and the status is \<open>Success\<close> exactly when the
  output file exists with a size above zero, \<open>EmptyOutput\<close> exactly when it exists
  with size zero, and \<open>MissingOutput\<close> exactly when it does not exist. The three
  statuses are the distinct constructors of \<open>status\<close>.
\<close>

theorem completion_status_from_output_file:
  assumes "outcome (visualize_tracking_results W txt_path img_dir output_path fps) = Inr st"
  shows "\<exists>vw. writer (visualize_tracking_results W txt_path img_dir output_path fps) = Some vw \<and>
           released vw \<and> filename vw = output_path \<and>
           (st = Success \<longleftrightarrow> (\<exists>n. stat_after W vw = Some n \<and> 0 < n)) \<and>
           (st = EmptyOutput \<longleftrightarrow> stat_after W vw = Some 0) \<and>
           (st = MissingOutput \<longleftrightarrow> stat_after W vw = None)"
proof -
  have ab: "outcome (abort e) \<noteq> Inr st" for e
    by (simp add: abort_def)
  show ?thesis
  proof (cases "read_csv W txt_path")
    case (DataFrame df)
    show ?thesis
    proof (cases "listdir W img_dir")
      case None
      with DataFrame assms ab show ?thesis
        by (simp add: visualize_tracking_results_def Let_def)
    next
      case (Some names)
      show ?thesis
      proof (cases "sorted_img_files names")
        case None
        with DataFrame Some assms ab show ?thesis
          by (simp add: visualize_tracking_results_def Let_def)
      next
        case fs: (Some img_files)
        show ?thesis
        proof (cases "img_files = []")
          case True
          with DataFrame Some fs assms ab show ?thesis
            by (simp add: visualize_tracking_results_def Let_def)
        next
          case ne: False
          show ?thesis
          proof (cases "imread W (path_join img_dir (hd img_files))")
            case None
            with run_first_unreadable [OF DataFrame Some fs ne None] assms ab show ?thesis
              by simp
          next
            case im: (Some first_frame)
            from assms show ?thesis
              unfolding run_reaches_loop [OF DataFrame Some fs ne im]
              by (auto simp: Let_def report_def split: option.splits if_splits)
          qed
        qed
      qed
    qed
  qed (use assms ab in \<open>simp_all add: visualize_tracking_results_def\<close>)
qed

theorem completion_status_from_output_file_witness:
  "(\<exists>vw n. writer (visualize_tracking_results demo_world ''gt.txt'' ''img1'' ''out.mp4'' 30) = Some vw \<and>
       outcome (visualize_tracking_results demo_world ''gt.txt'' ''img1'' ''out.mp4'' 30) = Inr Success \<and>
       stat_after demo_world vw = Some n \<and> 0 < n) \<and>
   (\<exists>vw. writer (visualize_tracking_results zero_size_world ''gt.txt'' ''img1'' ''out.mp4'' 30) = Some vw \<and>
       outcome (visualize_tracking_results zero_size_world ''gt.txt'' ''img1'' ''out.mp4'' 30) = Inr EmptyOutput \<and>
       stat_after zero_size_world vw = Some 0) \<and>
   (\<exists>vw. writer (visualize_tracking_results missing_file_world ''gt.txt'' ''img1'' ''out.mp4'' 30) = Some vw \<and>
       outcome (visualize_tracking_results missing_file_world ''gt.txt'' ''img1'' ''out.mp4'' 30) = Inr MissingOutput \<and>
       stat_after missing_file_world vw = None)"
proof -
  have a: "outcome (visualize_tracking_results demo_world ''gt.txt'' ''img1'' ''out.mp4'' 30) = Inr Success"
    by (simp add: demo_run)
  have b: "outcome (visualize_tracking_results zero_size_world ''gt.txt'' ''img1'' ''out.mp4'' 30) = Inr EmptyOutput"
    by code_simp
  have c: "outcome (visualize_tracking_results missing_file_world ''gt.txt'' ''img1'' ''out.mp4'' 30) = Inr MissingOutput"
    by code_simp
  from completion_status_from_output_file [OF a] a
  have "\<exists>vw n. writer (visualize_tracking_results demo_world ''gt.txt'' ''img1'' ''out.mp4'' 30) = Some vw \<and>
       outcome (visualize_tracking_results demo_world ''gt.txt'' ''img1'' ''out.mp4'' 30) = Inr Success \<and>
       stat_after demo_world vw = Some n \<and> 0 < n"
    by blast
  moreover from completion_status_from_output_file [OF b] b
  have "\<exists>vw. writer (visualize_tracking_results zero_size_world ''gt.txt'' ''img1'' ''out.mp4'' 30) = Some vw \<and>
       outcome (visualize_tracking_results zero_size_world ''gt.txt'' ''img1'' ''out.mp4'' 30) = Inr EmptyOutput \<and>
       stat_after zero_size_world vw = Some 0"
    by blast
  moreover from completion_status_from_output_file [OF c] c
  have "\<exists>vw. writer (visualize_tracking_results missing_file_world ''gt.txt'' ''img1'' ''out.mp4'' 30) = Some vw \<and>
       outcome (visualize_tracking_results missing_file_world ''gt.txt'' ''img1'' ''out.mp4'' 30) = Inr MissingOutput \<and>
       stat_after missing_file_world vw = None"
    by blast
  ultimately show ?thesis by (intro conjI)
qed

text \<open>
  C5. A log that exists and has no rows is loaded as a frame without rows. The
  procedure does not look at the number of rows: on such a log it builds an empty
  colour table, opens the writer and writes every decodable image without any
  overlay, and reports \<open>Success\<close>. Only when pandas raises
  \<^verbatim>\<open>EmptyDataError\<close> does the run end with \<open>EmptyInput\<close> and without a writer
  (lemma \<open>empty_data_error_aborts\<close>). The theorem runs the example with a log
  without rows.
\<close>

theorem log_without_rows_is_rendered:
  "read_csv empty_log_world ''gt.txt'' = DataFrame [] \<and>
   visualize_tracking_results empty_log_world ''gt.txt'' ''img1'' ''out.mp4'' 30 =
     \<lparr>outcome = Inr Success,
      writer = Some
        \<lparr>filename = ''out.mp4'', fourcc = ''mp4v'', fps_of = 30, frame_size = (640, 480),
         written = [\<lparr>img = demo_image 1, drawn = []\<rparr>, \<lparr>img = demo_image 10, drawn = []\<rparr>],
         released = True\<rparr>,
      warnings = [''img1/2.jpg'']\<rparr>"
  by code_simp

text \<open>
  C6. Let the log be loaded, the image files be sorted as \<open>img_files\<close> and the first
  of them decode. Then the run ends with a completion status, it warns about exactly
  the paths of the images that do not decode, the number of frames written plus the
  number of images that do not decode is the number of image files, and the frames
  written are the rendered decodable images in order, nothing else.
\<close>

theorem undecodable_images_are_skipped:
  assumes "read_csv W txt_path = DataFrame df"
    and "listdir W img_dir = Some names"
    and "sorted_img_files names = Some img_files"
    and "img_files \<noteq> []"
    and "imread W (path_join img_dir (hd img_files)) = Some first_frame"
  shows "\<exists>vw st.
           visualize_tracking_results W txt_path img_dir output_path fps =
             \<lparr>outcome = Inr st, writer = Some vw,
              warnings = map (path_join img_dir)
                (filter (\<lambda>f. imread W (path_join img_dir f) = None) img_files)\<rparr> \<and>
           length (written vw) + length (filter (\<lambda>f. imread W (path_join img_dir f) = None) img_files)
             = length img_files \<and>
           written vw =
             List.map_filter
               (\<lambda>(i, f). map_option (\<lambda>im. render i im df (build_colors df (random_raw W)))
                  (imread W (path_join img_dir f)))
               (enumerate 1 img_files)"
proof -
  have "length (filter (\<lambda>f. imread W (path_join img_dir f) \<noteq> None) img_files) +
        length (filter (\<lambda>f. imread W (path_join img_dir f) = None) img_files) = length img_files"
    using sum_length_filter_compl [of "\<lambda>f. imread W (path_join img_dir f) = None" img_files]
    by simp
  then show ?thesis
    unfolding run_reaches_loop [OF assms]
    by (simp add: Let_def frames_length)
qed

theorem undecodable_images_are_skipped_witness:
  "length [''1.jpg'', ''2.jpg'', ''10.jpg''] = 3 \<and>
   imread demo_world (path_join ''img1'' ''2.jpg'') = None \<and>
   (\<exists>vw st.
      visualize_tracking_results demo_world ''gt.txt'' ''img1'' ''out.mp4'' 30 =
        \<lparr>outcome = Inr st, writer = Some vw, warnings = [''img1/2.jpg'']\<rparr> \<and>
      length (written vw) = 2)"
proof -
  let ?fs = "[''1.jpg'', ''2.jpg'', ''10.jpg'']"
  have h1: "read_csv demo_world ''gt.txt'' = DataFrame demo_rows" by (simp add: demo_world_def)
  have h2: "listdir demo_world ''img1'' = Some demo_names" by (simp add: demo_world_def)
  have h4: "?fs \<noteq> []" by simp
  have h5: "imread demo_world (path_join ''img1'' (hd ?fs)) = Some (demo_image 1)" by code_simp
  have r2: "imread demo_world (path_join ''img1'' ''2.jpg'') = None" by code_simp
  have sk: "filter (\<lambda>f. imread demo_world (path_join ''img1'' f) = None) ?fs = [''2.jpg'']"
    by code_simp
  have pj: "path_join ''img1'' ''2.jpg'' = ''img1/2.jpg''" by code_simp
  from undecodable_images_are_skipped [OF h1 h2 demo_sorted h4 h5, of "''out.mp4''" 30]
  obtain vw st where
    "visualize_tracking_results demo_world ''gt.txt'' ''img1'' ''out.mp4'' 30 =
        \<lparr>outcome = Inr st, writer = Some vw,
         warnings = map (path_join ''img1'')
           (filter (\<lambda>f. imread demo_world (path_join ''img1'' f) = None) ?fs)\<rparr>"
    "length (written vw) + length (filter (\<lambda>f. imread demo_world (path_join ''img1'' f) = None) ?fs)
       = length ?fs"
    by blast
  then have
    "visualize_tracking_results demo_world ''gt.txt'' ''img1'' ''out.mp4'' 30 =
        \<lparr>outcome = Inr st, writer = Some vw, warnings = [''img1/2.jpg'']\<rparr> \<and>
     length (written vw) = 2"
    unfolding sk by (simp add: pj)
  with r2 show ?thesis by auto
qed

text \<open>
  C7. Every channel of every colour in the table lies between 0 and 254:
  \<^verbatim>\<open>np.random.randint(0, 255)\<close> excludes its upper bound, so the channel value 255
  is never assigned.
\<close>

theorem assigned_channels_exclude_255:
  assumes "build_colors df g tid = Some (c1, c2, c3)"
  shows "0 \<le> c1 \<and> c1 \<le> 254 \<and> 0 \<le> c2 \<and> c2 \<le> 254 \<and> 0 \<le> c3 \<and> c3 \<le> 254"
  using assign_colors_range [of "unique (map id_col df)" g Map.empty tid c1 c2 c3] assms
  by (simp add: build_colors_def)

theorem assigned_channels_exclude_255_witness:
  "build_colors [demo_r1] (\<lambda>n. 255) 3 = Some (0, 0, 0) \<and>
   build_colors [demo_r1] (\<lambda>n. 254) 3 = Some (254, 254, 254) \<and>
   (0::int) \<le> 254 \<and> (254::int) \<le> 254"
proof -
  have a: "build_colors [demo_r1] (\<lambda>n. 255) 3 = Some (0, 0, 0)" by code_simp
  have b: "build_colors [demo_r1] (\<lambda>n. 254) 3 = Some (254, 254, 254)" by code_simp
  from assigned_channels_exclude_255 [OF b] a b show ?thesis by simp
qed

text \<open>
  C8, at a concrete input. In the example with an undecodable \<^verbatim>\<open>1.jpg\<close> and a
  decodable \<^verbatim>\<open>2.jpg\<close> the run ends with \<open>FirstImageUnreadable\<close> and opens no
  writer: the dimensions are not taken from the next image that decodes.
\<close>

theorem first_image_corrupt_aborts:
  "sorted_img_files demo_names = Some [''1.jpg'', ''2.jpg'', ''10.jpg''] \<and>
   imread first_corrupt_world (path_join ''img1'' ''1.jpg'') = None \<and>
   imread first_corrupt_world (path_join ''img1'' ''2.jpg'') = Some (demo_image 2) \<and>
   visualize_tracking_results first_corrupt_world ''gt.txt'' ''img1'' ''out.mp4'' 30 =
     \<lparr>outcome = Inl FirstImageUnreadable, writer = None, warnings = []\<rparr>"
  by code_simp

text \<open>
  C8, as the procedure works. Let the log be loaded and the image files be sorted as
  a non-empty list. If the first of them decodes, the writer is opened with the
  width and height of that image; if it does not decode, the run ends with
  \<open>FirstImageUnreadable\<close> without opening a writer, whatever the later images are.
\<close>

theorem dimensions_from_first_sorted_image:
  assumes "read_csv W txt_path = DataFrame df"
    and "listdir W img_dir = Some names"
    and "sorted_img_files names = Some img_files"
    and "img_files \<noteq> []"
  shows "(\<forall>first_frame. imread W (path_join img_dir (hd img_files)) = Some first_frame \<longrightarrow>
            (\<exists>vw. writer (visualize_tracking_results W txt_path img_dir output_path fps) = Some vw \<and>
                  frame_size vw = (width first_frame, height first_frame))) \<and>
         (imread W (path_join img_dir (hd img_files)) = None \<longrightarrow>
            visualize_tracking_results W txt_path img_dir output_path fps =
              \<lparr>outcome = Inl FirstImageUnreadable, writer = None, warnings = []\<rparr>)"
proof (intro conjI allI impI)
  fix first_frame
  assume "imread W (path_join img_dir (hd img_files)) = Some first_frame"
  from run_reaches_loop [OF assms this]
  show "\<exists>vw. writer (visualize_tracking_results W txt_path img_dir output_path fps) = Some vw \<and>
          frame_size vw = (width first_frame, height first_frame)"
    by (simp add: Let_def)
next
  assume "imread W (path_join img_dir (hd img_files)) = None"
  from run_first_unreadable [OF assms this]
  show "visualize_tracking_results W txt_path img_dir output_path fps =
      \<lparr>outcome = Inl FirstImageUnreadable, writer = None, warnings = []\<rparr>"
    by (simp add: abort_def)
qed

theorem dimensions_from_first_sorted_image_witness:
  "(\<exists>vw. writer (visualize_tracking_results demo_world ''gt.txt'' ''img1'' ''out.mp4'' 30) = Some vw \<and>
         frame_size vw = (640, 480)) \<and>
   imread first_corrupt_world (path_join ''img1'' (hd [''1.jpg'', ''2.jpg'', ''10.jpg''])) = None \<and>
   visualize_tracking_results first_corrupt_world ''gt.txt'' ''img1'' ''out.mp4'' 30 =
     \<lparr>outcome = Inl FirstImageUnreadable, writer = None, warnings = []\<rparr>"
proof -
  let ?fs = "[''1.jpg'', ''2.jpg'', ''10.jpg'']"
  have h1: "read_csv demo_world ''gt.txt'' = DataFrame demo_rows" by (simp add: demo_world_def)
  have h2: "listdir demo_world ''img1'' = Some demo_names" by (simp add: demo_world_def)
  have k1: "read_csv first_corrupt_world ''gt.txt'' = DataFrame demo_rows" by code_simp
  have k2: "listdir first_corrupt_world ''img1'' = Some demo_names" by code_simp
  have h4: "?fs \<noteq> []" by simp
  have a: "imread demo_world (path_join ''img1'' (hd ?fs)) = Some (demo_image 1)" by code_simp
  have b: "imread first_corrupt_world (path_join ''img1'' (hd ?fs)) = None" by code_simp
  have sz: "(width (demo_image 1), height (demo_image 1)) = (640, 480)"
    by (simp add: demo_image_def)
  from dimensions_from_first_sorted_image [OF h1 h2 demo_sorted h4, of "''out.mp4''" 30] a
  have "\<exists>vw. writer (visualize_tracking_results demo_world ''gt.txt'' ''img1'' ''out.mp4'' 30) = Some vw \<and>
         frame_size vw = (width (demo_image 1), height (demo_image 1))"
    by blast
  then have A: "\<exists>vw. writer (visualize_tracking_results demo_world ''gt.txt'' ''img1'' ''out.mp4'' 30) = Some vw \<and>
         frame_size vw = (640, 480)"
    unfolding sz .
  from dimensions_from_first_sorted_image [OF k1 k2 demo_sorted h4, of "''out.mp4''" 30] b
  have B: "visualize_tracking_results first_corrupt_world ''gt.txt'' ''img1'' ''out.mp4'' 30 =
     \<lparr>outcome = Inl FirstImageUnreadable, writer = None, warnings = []\<rparr>"
    by blast
  show ?thesis by (intro conjI A b B)
qed

text \<open>
  C9. If the directory exists and none of its names ends in \<^verbatim>\<open>.jpg\<close>, the run ends
  with an error and without a writer, hence without an output file: the error is
  \<open>NoJpgFound\<close> when the log was loaded, and the error of the log otherwise.
\<close>

theorem no_jpg_files_no_output:
  assumes "listdir W img_dir = Some names"
    and "filter (\<lambda>f. endswith f ''.jpg'') names = []"
  shows "visualize_tracking_results W txt_path img_dir output_path fps =
           \<lparr>outcome = Inl (case read_csv W txt_path of
                             EmptyDataError \<Rightarrow> EmptyInput
                           | FileNotFoundError \<Rightarrow> LogNotFound
                           | OtherCsvError \<Rightarrow> Uncaught ReadCsvError
                           | DataFrame df \<Rightarrow> NoJpgFound),
            writer = None, warnings = []\<rparr>"
proof -
  have "sorted_img_files names = Some []"
    using assms(2) by (simp add: sorted_img_files_def)
  then show ?thesis
    using assms(1)
    by (cases "read_csv W txt_path")
       (simp_all add: visualize_tracking_results_def abort_def Let_def)
qed

theorem no_jpg_files_no_output_witness:
  "listdir no_jpg_world ''img1'' = Some [''notes.txt'', ''1.png'', ''2.JPG''] \<and>
   visualize_tracking_results no_jpg_world ''gt.txt'' ''img1'' ''out.mp4'' 30 =
     \<lparr>outcome = Inl NoJpgFound, writer = None, warnings = []\<rparr>"
proof -
  have h1: "listdir no_jpg_world ''img1'' = Some [''notes.txt'', ''1.png'', ''2.JPG'']"
    by code_simp
  have h2: "filter (\<lambda>f. endswith f ''.jpg'') [''notes.txt'', ''1.png'', ''2.JPG''] = []"
    by code_simp
  have h3: "read_csv no_jpg_world ''gt.txt'' = DataFrame demo_rows" by code_simp
  from no_jpg_files_no_output [OF h1 h2, of "''gt.txt''" "''out.mp4''" 30]
  have "visualize_tracking_results no_jpg_world ''gt.txt'' ''img1'' ''out.mp4'' 30 =
     \<lparr>outcome = Inl NoJpgFound, writer = None, warnings = []\<rparr>"
    by (simp add: h3)
  with h1 show ?thesis by (intro conjI)
qed



end
